theory Spec2Isabelle
  imports Main
begin

section \<open>Python strings\<close>

text \<open>
  Text is modelled as \<open>string\<close>, one \<open>char\<close> per code point, for ASCII text: \<open>lower\<close>
  folds the letters A to Z, \<open>strip\<close> removes the ASCII white space of Python's
  \<open>str.strip()\<close>.
\<close>

definition upper_letters :: string where
  "upper_letters = ''ABCDEFGHIJKLMNOPQRSTUVWXYZ''"

definition lower_letters :: string where
  "lower_letters = ''abcdefghijklmnopqrstuvwxyz''"

definition lower_char :: "char \<Rightarrow> char" where
  "lower_char c = (case map_of (zip upper_letters lower_letters) c of Some d \<Rightarrow> d | None \<Rightarrow> c)"

definition lower :: "string \<Rightarrow> string" where
  "lower s = map lower_char s"

definition newline :: char where
  "newline = CHR 0x0A"

definition is_space :: "char \<Rightarrow> bool" where
  "is_space c = (c \<in> set [CHR 0x09, CHR 0x0A, CHR 0x0B, CHR 0x0C, CHR 0x0D,
                            CHR 0x1C, CHR 0x1D, CHR 0x1E, CHR 0x1F, CHR '' ''])"

definition strip :: "string \<Rightarrow> string" where
  "strip s = rev (dropWhile is_space (rev (dropWhile is_space s)))"

text \<open>\<open>s.startswith(p)\<close> and \<open>sub in s\<close>.\<close>

fun startswith :: "string \<Rightarrow> string \<Rightarrow> bool" where
  "startswith s [] = True"
| "startswith [] (p # ps) = False"
| "startswith (c # s) (p # ps) = (c = p \<and> startswith s ps)"

fun contains :: "string \<Rightarrow> string \<Rightarrow> bool" where
  "contains sub [] = (sub = [])"
| "contains sub (c # s) = (startswith (c # s) sub \<or> contains sub s)"

section \<open>The regular expressions of \<open>base_mapper.py\<close>\<close>

text \<open>
  The fragment of Python's \<open>re\<close> that \<open>UNKNOWN_REGEX\<close> and the literal patterns use:
  an ordered alternation of sequences of single-character items, each taken once, optionally
  (\<open>?\<close>), one or more times (\<open>+\<close>) or any number of times (\<open>*\<close>), and the anchors
  \<open>^\<close> and \<open>$\<close>. Matching is Python's: leftmost, alternatives in order, quantifiers greedy
  with backtracking.
\<close>

datatype cset = Lit char | OneOf string | Dot

datatype item = One cset | Opt cset | Star cset | Plus cset | Bol | Eol

type_synonym regex = "item list list"

fun in_cset :: "bool \<Rightarrow> cset \<Rightarrow> char \<Rightarrow> bool" where
  "in_cset ci (Lit a) c = (if ci then lower_char c = lower_char a else c = a)"
| "in_cset ci (OneOf as) c = (if ci then lower_char c \<in> set (map lower_char as) else c \<in> set as)"
| "in_cset ci Dot c = (c \<noteq> newline)"

text \<open>
  \<open>match_seq ci adv at0 moved items s\<close> matches the items at the head of \<open>s\<close> and returns
  the text left after the match. \<open>ci\<close> is \<open>re.IGNORECASE\<close>; \<open>at0\<close> says that the head of
  \<open>s\<close> is index 0 of the subject; \<open>moved\<close> that the match has consumed a character;
  \<open>adv\<close> that an empty match is refused (the engine's \<open>must_advance\<close>).
\<close>

fun match_seq :: "bool \<Rightarrow> bool \<Rightarrow> bool \<Rightarrow> bool \<Rightarrow> item list \<Rightarrow> string \<Rightarrow> string option" where
  "match_seq ci adv at0 moved [] s = (if adv \<and> \<not> moved then None else Some s)"
| "match_seq ci adv at0 moved (Bol # is) s =
     (if at0 then match_seq ci adv at0 moved is s else None)"
| "match_seq ci adv at0 moved (Eol # is) s =
     (if s = [] \<or> s = [newline] then match_seq ci adv at0 moved is s else None)"
| "match_seq ci adv at0 moved (One cs # is) s =
     (case s of [] \<Rightarrow> None
      | c # t \<Rightarrow> if in_cset ci cs c then match_seq ci adv False True is t else None)"
| "match_seq ci adv at0 moved (Opt cs # is) s =
     (case s of [] \<Rightarrow> match_seq ci adv at0 moved is []
      | c # t \<Rightarrow>
          if in_cset ci cs c
          then (case match_seq ci adv False True is t of
                  Some r \<Rightarrow> Some r
                | None \<Rightarrow> match_seq ci adv at0 moved is (c # t))
          else match_seq ci adv at0 moved is (c # t))"
| "match_seq ci adv at0 moved (Star cs # is) s =
     (case s of [] \<Rightarrow> match_seq ci adv at0 moved is []
      | c # t \<Rightarrow>
          if in_cset ci cs c
          then (case match_seq ci adv False True (Star cs # is) t of
                  Some r \<Rightarrow> Some r
                | None \<Rightarrow> match_seq ci adv at0 moved is (c # t))
          else match_seq ci adv at0 moved is (c # t))"
| "match_seq ci adv at0 moved (Plus cs # is) s =
     (case s of [] \<Rightarrow> None
      | c # t \<Rightarrow> if in_cset ci cs c then match_seq ci adv False True (Star cs # is) t else None)"

fun match_re :: "bool \<Rightarrow> bool \<Rightarrow> bool \<Rightarrow> regex \<Rightarrow> string \<Rightarrow> string option" where
  "match_re ci adv at0 [] s = None"
| "match_re ci adv at0 (a # as) s =
     (case match_seq ci adv at0 False a s of
        Some r \<Rightarrow> Some r
      | None \<Rightarrow> match_re ci adv at0 as s)"

text \<open>
  \<open>re.sub\<close>: the subject is scanned from the left; each match is replaced; after an empty
  match the next search refuses an empty match at the same place.
\<close>

function sub_from :: "bool \<Rightarrow> regex \<Rightarrow> string \<Rightarrow> bool \<Rightarrow> bool \<Rightarrow> string \<Rightarrow> string" where
  "sub_from ci re repl adv at0 s =
     (case match_re ci adv at0 re s of
        Some r \<Rightarrow>
          if length r < length s then repl @ sub_from ci re repl False False r
          else if adv then repl @ r
          else repl @ sub_from ci re repl True at0 s
      | None \<Rightarrow>
          (case s of [] \<Rightarrow> [] | c # t \<Rightarrow> c # sub_from ci re repl False False t))"
  by pat_completeness auto
termination
  by (relation "measures [\<lambda>(ci, re, repl, adv, at0, s). length s,
                          \<lambda>(ci, re, repl, adv, at0, s). if adv then 0 else 1]") auto

definition re_sub :: "bool \<Rightarrow> regex \<Rightarrow> string \<Rightarrow> string \<Rightarrow> string" where
  "re_sub ci re repl s = sub_from ci re repl False True s"

section \<open>\<open>base_mapper.py\<close>: unknown tokens and type casting\<close>

text \<open>
  \<open>UNKNOWN_TOKENS\<close> as the module writes it: no comma separates \<open>"nd"\<close> from \<open>"n.d"\<close>, so
  Python joins the two literals. \<open>parse_types\<close> never reads the list; it uses
  \<open>UNKNOWN_REGEX\<close> only.
\<close>

definition UNKNOWN_TOKENS :: "string list" where
  "UNKNOWN_TOKENS = [''nan'', ''na'', ''nd'' @ ''n.d'', ''none'', ''-'', ''unknown'', ''n/a'', ''n/d'', []]"

text \<open>\<open>UNKNOWN_REGEX = r"$^|n\.?[a|d|/|n]+\.?|^-$|unk.*|none"\<close>\<close>

definition UNKNOWN_REGEX :: regex where
  "UNKNOWN_REGEX =
     [[Eol, Bol],
      [One (Lit CHR ''n''), Opt (Lit CHR ''.''), Plus (OneOf ''a|d|/|n''), Opt (Lit CHR ''.'')],
      [Bol, One (Lit CHR ''-''), Eol],
      [One (Lit CHR ''u''), One (Lit CHR ''n''), One (Lit CHR ''k''), Star Dot],
      [One (Lit CHR ''n''), One (Lit CHR ''o''), One (Lit CHR ''n''), One (Lit CHR ''e'')]]"

text \<open>A pattern without special characters, as \<open>"oui"\<close> and \<open>"yes"\<close>.\<close>

definition literal :: "string \<Rightarrow> regex" where
  "literal p = [map (\<lambda>c. One (Lit c)) p]"

datatype error = KeyError | ValueError | TypeError | AttributeError | IndexError
  | SettingWithCopyError

text \<open>
  The values a column holds. A 64-bit float is a value of the type parameter \<open>'f\<close>; a timestamp is
  identified by the text \<open>str\<close> prints for it.
\<close>

datatype 'f cell = Str string | IntV int | Flt 'f | NaN | Bool bool | Stamp string | NaT
  | PyNone

text \<open>
  What the numeric and date parsers of the libraries compute on one value; they are not
  part of the repository and are taken as parameters.
\<close>

record 'f numeric_lib =
  float_repr :: "'f \<Rightarrow> string"
  to_float :: "'f cell \<Rightarrow> 'f option"
  float_to_int :: "'f \<Rightarrow> int option"
  to_datetime :: "'f cell \<Rightarrow> string option"

definition digit_chars :: string where
  "digit_chars = ''0123456789''"

fun show_nat :: "nat \<Rightarrow> string" where
  "show_nat n = (if n < 10 then [digit_chars ! n] else show_nat (n div 10) @ [digit_chars ! (n mod 10)])"

definition show_int :: "int \<Rightarrow> string" where
  "show_int i = (if i < 0 then CHR ''-'' # show_nat (nat (- i)) else show_nat (nat i))"

text \<open>\<open>str(x)\<close>, which \<open>series.astype(str)\<close> applies to every value.\<close>

fun py_str :: "'f numeric_lib \<Rightarrow> 'f cell \<Rightarrow> string" where
  "py_str L (Str s) = s"
| "py_str L (IntV i) = show_int i"
| "py_str L (Flt f) = float_repr L f"
| "py_str L NaN = ''nan''"
| "py_str L (Bool b) = (if b then ''True'' else ''False'')"
| "py_str L (Stamp s) = s"
| "py_str L NaT = ''NaT''"
| "py_str L PyNone = ''None''"

text \<open>
  \<open>int(s)\<close> on text: white space stripped, an optional sign, then digits, single
  underscores allowed between digits.
\<close>

definition digit_val :: "char \<Rightarrow> nat option" where
  "digit_val c = map_of (zip digit_chars [0 ..< 10]) c"

fun int_body :: "nat \<Rightarrow> bool \<Rightarrow> string \<Rightarrow> nat option" where
  "int_body acc after_digit [] = (if after_digit then Some acc else None)"
| "int_body acc after_digit (c # s) =
     (if c = CHR ''_'' then (if after_digit \<and> s \<noteq> [] then int_body acc False s else None)
      else (case digit_val c of None \<Rightarrow> None | Some v \<Rightarrow> int_body (10 * acc + v) True s))"

definition py_int :: "string \<Rightarrow> int option" where
  "py_int s =
     (case strip s of
        [] \<Rightarrow> None
      | c # t \<Rightarrow>
          if c = CHR ''-'' then map_option (\<lambda>n. - int n) (int_body 0 False t)
          else if c = CHR ''+'' then map_option int (int_body 0 False t)
          else map_option int (int_body 0 False (c # t)))"

text \<open>An operation on every value of a column fails with the first failure.\<close>

fun traverse :: "('a \<Rightarrow> error + 'b) \<Rightarrow> 'a list \<Rightarrow> error + 'b list" where
  "traverse f [] = Inr []"
| "traverse f (x # xs) =
     (case f x of
        Inl e \<Rightarrow> Inl e
      | Inr y \<Rightarrow> (case traverse f xs of Inl e \<Rightarrow> Inl e | Inr ys \<Rightarrow> Inr (y # ys)))"

text \<open>\<open>pd.to_numeric(series, errors="coerce")\<close> on one value.\<close>

definition to_numeric_coerce :: "'f numeric_lib \<Rightarrow> 'f cell \<Rightarrow> 'f cell" where
  "to_numeric_coerce L c = (case to_float L c of Some f \<Rightarrow> Flt f | None \<Rightarrow> NaN)"

text \<open>
  \<open>series.astype(t)\<close> on one value, for the type tokens of the registry. An integer cast
  fails on text that is no integer literal and on a missing value; a type name that pandas
  does not know is a \<open>TypeError\<close>.
\<close>

fun astype_int64 :: "'f numeric_lib \<Rightarrow> 'f cell \<Rightarrow> error + 'f cell" where
  "astype_int64 L (IntV i) = Inr (IntV i)"
| "astype_int64 L (Bool b) = Inr (IntV (if b then 1 else 0))"
| "astype_int64 L (Str s) = (case py_int s of Some i \<Rightarrow> Inr (IntV i) | None \<Rightarrow> Inl ValueError)"
| "astype_int64 L (Flt f) = (case float_to_int L f of Some i \<Rightarrow> Inr (IntV i) | None \<Rightarrow> Inl ValueError)"
| "astype_int64 L NaN = Inl ValueError"
| "astype_int64 L NaT = Inl ValueError"
| "astype_int64 L (Stamp s) = Inl TypeError"
| "astype_int64 L PyNone = Inl TypeError"

fun astype_float64 :: "'f numeric_lib \<Rightarrow> 'f cell \<Rightarrow> error + 'f cell" where
  "astype_float64 L (Flt f) = Inr (Flt f)"
| "astype_float64 L NaN = Inr NaN"
| "astype_float64 L PyNone = Inr NaN"
| "astype_float64 L c = (case to_float L c of Some f \<Rightarrow> Inr (Flt f) | None \<Rightarrow> Inl ValueError)"

fun astype_datetime :: "'f numeric_lib \<Rightarrow> 'f cell \<Rightarrow> error + 'f cell" where
  "astype_datetime L (Stamp s) = Inr (Stamp s)"
| "astype_datetime L NaT = Inr NaT"
| "astype_datetime L NaN = Inr NaT"
| "astype_datetime L PyNone = Inr NaT"
| "astype_datetime L c = (case to_datetime L c of Some s \<Rightarrow> Inr (Stamp s) | None \<Rightarrow> Inl ValueError)"

fun astype_bool :: "'f cell \<Rightarrow> error + 'f cell" where
  "astype_bool (Bool b) = Inr (Bool b)"
| "astype_bool (Str s) = Inr (Bool (s \<noteq> []))"
| "astype_bool (IntV i) = Inr (Bool (i \<noteq> 0))"
| "astype_bool PyNone = Inr (Bool False)"
| "astype_bool c = Inr (Bool True)"

fun astype_string :: "'f cell \<Rightarrow> error + 'f cell" where
  "astype_string (Str s) = Inr (Str s)"
| "astype_string c = Inl ValueError"

definition astype :: "'f numeric_lib \<Rightarrow> string \<Rightarrow> 'f cell list \<Rightarrow> error + 'f cell list" where
  "astype L t vs =
     (if t = ''bool'' then traverse astype_bool vs
      else if t = ''string'' then traverse astype_string vs
      else if t = ''category'' \<or> t = ''object'' then Inr vs
      else if t = ''int64'' then traverse (astype_int64 L) vs
      else if t = ''float64'' then traverse (astype_float64 L) vs
      else if t = ''datetime64[ns]'' then traverse (astype_datetime L) vs
      else Inl TypeError)"

record 'f series =
  sname :: string
  svalues :: "'f cell list"

text \<open>
  \<open>DATA_TYPES\<close>, read from a remote document when the module is loaded: table name to
  lower-cased variable name to a dictionary with the key \<open>variableType\<close>. Its content is a
  parameter.
\<close>

type_synonym registry = "string \<rightharpoonup> (string \<rightharpoonup> (string \<rightharpoonup> string))"

text \<open>The cleaning of one stringified value in the boolean and in the text branch.\<close>

definition clean_bool :: "string \<Rightarrow> string \<Rightarrow> bool" where
  "clean_bool default_bool s =
     startswith
       (re_sub True (literal ''yes'') ''true''
         (re_sub True (literal ''oui'') ''true''
           (re_sub False UNKNOWN_REGEX default_bool (lower (strip s)))))
       ''true''"

definition clean_text :: "string \<Rightarrow> string \<Rightarrow> string" where
  "clean_text variable_name s =
     (let t = re_sub True UNKNOWN_REGEX [] (strip s)
      in if variable_name \<noteq> ''wkt'' then lower t else t)"

definition cast_bool :: "'f numeric_lib \<Rightarrow> string \<Rightarrow> 'f cell \<Rightarrow> 'f cell" where
  "cast_bool L default_bool c = Bool (clean_bool default_bool (py_str L c))"

definition cast_text :: "'f numeric_lib \<Rightarrow> string \<Rightarrow> 'f cell \<Rightarrow> 'f cell" where
  "cast_text L variable_name c = Str (clean_text variable_name (py_str L c))"

text \<open>
  Lines 42 to 45 of \<open>parse_types\<close>: \<open>types[table_name]\<close> raises \<open>KeyError\<close> on an unknown
  table (here \<open>None\<close>); an unregistered variable is text.
\<close>

definition declared_type :: "registry \<Rightarrow> string \<Rightarrow> string \<Rightarrow> string option" where
  "declared_type types table_name variable_name =
     (case types table_name of
        None \<Rightarrow> None
      | Some lookup_table \<Rightarrow>
          let lookup_type = (case lookup_table variable_name of Some d \<Rightarrow> d | None \<Rightarrow> Map.empty)
          in Some (case lookup_type ''variableType'' of Some t \<Rightarrow> t | None \<Rightarrow> ''string''))"

definition parse_types :: "'f numeric_lib \<Rightarrow> registry \<Rightarrow> string \<Rightarrow> 'f series \<Rightarrow> error + 'f series" where
  "parse_types L types table_name ser =
     (let variable_name = lower (sname ser) in
      case declared_type types table_name variable_name of
        None \<Rightarrow> Inl KeyError
      | Some desired_type \<Rightarrow>
          let vs =
                (if desired_type = ''bool'' then
                   (let default_bool =
                          (if contains ''qualityFlag'' variable_name then ''false'' else ''true'')
                    in map (cast_bool L default_bool) (svalues ser))
                 else if desired_type = ''string'' \<or> desired_type = ''category'' then
                   map (cast_text L variable_name) (svalues ser)
                 else if desired_type \<in> set [''inst64'', ''float64''] then
                   map (to_numeric_coerce L) (svalues ser)
                 else svalues ser)
          in (case astype L desired_type vs of
                Inl e \<Rightarrow> Inl e
              | Inr vs' \<Rightarrow> Inr (ser\<lparr>svalues := vs'\<rparr>)))"




text \<open>A library whose numeric parsers accept nothing, and a registry, for examples.\<close>

definition no_numbers :: "unit numeric_lib" where
  "no_numbers = \<lparr>float_repr = (\<lambda>_. []), to_float = (\<lambda>_. None),
                  float_to_int = (\<lambda>_. None), to_datetime = (\<lambda>_. None)\<rparr>"

definition example_types :: registry where
  "example_types =
     [''WWMeasure'' \<mapsto>
        [''qualityflag'' \<mapsto> [''variableType'' \<mapsto> ''bool''],
         ''index'' \<mapsto> [''variableType'' \<mapsto> ''int64''],
         ''value'' \<mapsto> [''variableType'' \<mapsto> ''float64''],
         ''notes'' \<mapsto> [''variableType'' \<mapsto> ''string'']]]"



section \<open>\<open>odm.py\<close>: tables\<close>

text \<open>
  A \<open>DataFrame\<close>: the column names with the dtype of each column, the row labels (the
  index, \<open>0, 1, ...\<close> after a fresh read) and the rows. \<open>row[col]\<close> looks a value up by column
  name and raises \<open>KeyError\<close> when there is no such column.
\<close>

record 'f table =
  columns :: "string list"
  dtypes :: "string list"
  index :: "'f cell list"
  rows :: "'f cell list list"

definition wf_table :: "'f table \<Rightarrow> bool" where
  "wf_table t =
     (distinct (columns t) \<and> length (dtypes t) = length (columns t) \<and>
      length (index t) = length (rows t) \<and>
      (\<forall>r \<in> set (rows t). length r = length (columns t)))"

definition range_index :: "nat \<Rightarrow> 'f cell list" where
  "range_index n = map (\<lambda>k. IntV (int k)) [0 ..< n]"

definition cell_of :: "string list \<Rightarrow> 'f cell list \<Rightarrow> string \<Rightarrow> error + 'f cell" where
  "cell_of cols row col = (case map_of (zip cols row) col of None \<Rightarrow> Inl KeyError | Some v \<Rightarrow> Inr v)"

text \<open>\<open>df.iterrows()\<close>: the pairs of a row label and a row, in order.\<close>

definition iterrows :: "'f table \<Rightarrow> ('f cell \<times> 'f cell list) list" where
  "iterrows t = zip (index t) (rows t)"

text \<open>Sequencing of steps that may raise.\<close>

definition and_then :: "error + 'a \<Rightarrow> ('a \<Rightarrow> error + 'b) \<Rightarrow> error + 'b" where
  "and_then m f = (case m of Inl e \<Rightarrow> Inl e | Inr x \<Rightarrow> f x)"

subsection \<open>\<open>append\<close> and \<open>drop_duplicates\<close>\<close>

text \<open>
  \<open>current.append(other)\<close> keeps the columns of \<open>current\<close>, adds those only \<open>other\<close> has, and
  fills the cells a row has no value for with \<open>NaN\<close>; the row labels are kept. It raises
  \<open>TypeError\<close> when \<open>other\<close> is \<open>None\<close>, and cannot align two different column lists one of
  which repeats a name.
\<close>

definition realign :: "string list \<Rightarrow> string list \<Rightarrow> 'f cell list \<Rightarrow> 'f cell list" where
  "realign new_cols cols row =
     map (\<lambda>c. case map_of (zip cols row) c of None \<Rightarrow> NaN | Some v \<Rightarrow> v) new_cols"

definition append_df :: "'f table \<Rightarrow> 'f table option \<Rightarrow> error + 'f table" where
  "append_df cur other =
     (case other of
        None \<Rightarrow> Inl TypeError
      | Some new \<Rightarrow>
          if columns cur = columns new then
            Inr (cur\<lparr>index := index cur @ index new, rows := rows cur @ rows new\<rparr>)
          else if \<not> distinct (columns cur) \<or> \<not> distinct (columns new) then Inl ValueError
          else
            (let extra = filter (\<lambda>c. c \<notin> set (columns cur)) (columns new);
                 cols = columns cur @ extra
             in Inr \<lparr>columns = cols,
                     dtypes = dtypes cur @ map snd (filter (\<lambda>(c, d). c \<notin> set (columns cur))
                                                      (zip (columns new) (dtypes new))),
                     index = index cur @ index new,
                     rows = map (realign cols (columns cur)) (rows cur) @
                            map (realign cols (columns new)) (rows new)\<rparr>))"

text \<open>\<open>drop_duplicates()\<close>: of the rows with equal values the first one is kept, with its label.\<close>

fun keep_first :: "'r list \<Rightarrow> ('l \<times> 'r) list \<Rightarrow> ('l \<times> 'r) list" where
  "keep_first seen [] = []"
| "keep_first seen (p # ps) =
     (if snd p \<in> set seen then keep_first seen ps else p # keep_first (snd p # seen) ps)"

definition drop_duplicates :: "'f table \<Rightarrow> 'f table" where
  "drop_duplicates t =
     (let kept = keep_first [] (iterrows t)
      in t\<lparr>index := map fst kept, rows := map snd kept\<rparr>)"

subsection \<open>The aggregate and \<open>add_to_attr\<close>\<close>

text \<open>
  An \<open>Odm\<close> instance is its attribute dictionary: \<open>None\<close> of the option in the range is
  Python's \<open>None\<close>, an attribute that holds no table. \<open>getattr\<close> of a name that is not there
  raises \<open>AttributeError\<close>.
\<close>

type_synonym 'f odm = "string \<rightharpoonup> 'f table option"

definition Odm_init :: "'f odm" where
  "Odm_init =
     [''sample'' \<mapsto> None, ''ww_measure'' \<mapsto> None, ''site'' \<mapsto> None,
      ''site_measure'' \<mapsto> None, ''reporter'' \<mapsto> None, ''lab'' \<mapsto> None,
      ''assay_method'' \<mapsto> None, ''instrument'' \<mapsto> None, ''polygon'' \<mapsto> None,
      ''cphd'' \<mapsto> None]"

definition getattr :: "'f odm \<Rightarrow> string \<Rightarrow> error + 'f table option" where
  "getattr self attribute = (case self attribute of None \<Rightarrow> Inl AttributeError | Some v \<Rightarrow> Inr v)"

definition add_to_attr :: "'f odm \<Rightarrow> string \<Rightarrow> 'f table option \<Rightarrow> error + 'f odm" where
  "add_to_attr self attribute new_df =
     and_then (getattr self attribute) (\<lambda>current_value.
       case current_value of
         None \<Rightarrow> Inr (self(attribute \<mapsto> new_df))
       | Some cur \<Rightarrow>
           (case and_then (append_df cur new_df) (\<lambda>a. Inr (drop_duplicates a)) of
              Inr combined_df \<Rightarrow> Inr (self(attribute \<mapsto> Some combined_df))
            | Inl e \<Rightarrow> Inr (self(attribute \<mapsto> Some cur))))"

subsection \<open>\<open>get_geoJSON\<close>\<close>

text \<open>
  \<open>utilities.convert_wkt_to_geojson\<close> is not part of the given source: it is the parameter
  \<open>conv\<close>, which may raise. A dictionary is the list of its items in insertion order.
\<close>

record ('f, 'g) feature =
  ftype :: string
  geometry :: 'g
  properties :: "(string \<times> 'f cell) list"
  fid :: "'f cell"

record ('f, 'g) feature_collection =
  gtype :: string
  gfeatures :: "('f, 'g) feature list"

definition new_feature ::
  "('f cell \<Rightarrow> error + 'g) \<Rightarrow> string list \<Rightarrow> 'f cell \<times> 'f cell list \<Rightarrow> error + ('f, 'g) feature" where
  "new_feature conv cols ir =
     (case ir of (i, row) \<Rightarrow>
        and_then (cell_of cols row ''wkt'') (\<lambda>w.
        and_then (conv w) (\<lambda>g.
        and_then (traverse (\<lambda>col. and_then (cell_of cols row col) (\<lambda>v. Inr (col, v)))
                    (filter (\<lambda>col. \<not> contains ''wkt'' col) cols)) (\<lambda>props.
        Inr \<lparr>ftype = ''Feature'', geometry = g, properties = props, fid = i\<rparr>))))"

definition get_geoJSON ::
  "('f cell \<Rightarrow> error + 'g) \<Rightarrow> 'f odm \<Rightarrow> error + ('f, 'g) feature_collection" where
  "get_geoJSON conv self =
     and_then (getattr self ''polygon'') (\<lambda>polygon.
       case polygon of
         None \<Rightarrow> Inl AttributeError
       | Some polygon_df \<Rightarrow>
           and_then (traverse (new_feature conv (columns polygon_df)) (iterrows polygon_df))
             (\<lambda>fs. Inr \<lparr>gtype = ''FeatureCollection'', gfeatures = fs\<rparr>))"

subsection \<open>Example tables\<close>

definition ex_polygon_a :: "unit table" where
  "ex_polygon_a =
     \<lparr>columns = [''polygonID'', ''name'', ''wkt''],
      dtypes = [''string'', ''string'', ''string''],
      index = [IntV 0],
      rows = [[Str ''p1'', Str ''east'', Str ''POLYGON ((0 0, 1 0, 1 1, 0 0))'']]\<rparr>"

definition ex_polygon_b :: "unit table" where
  "ex_polygon_b =
     \<lparr>columns = [''polygonID'', ''name'', ''wkt''],
      dtypes = [''string'', ''string'', ''string''],
      index = [IntV 0],
      rows = [[Str ''p2'', Str ''west'', Str ''POLYGON ((0 0, 2 0, 2 2, 0 0))'']]\<rparr>"

text \<open>The two tables after both were merged into the attribute \<open>polygon\<close>: the labels repeat.\<close>

definition ex_polygon_ab :: "unit table" where
  "ex_polygon_ab =
     \<lparr>columns = [''polygonID'', ''name'', ''wkt''],
      dtypes = [''string'', ''string'', ''string''],
      index = [IntV 0, IntV 0],
      rows = [[Str ''p1'', Str ''east'', Str ''POLYGON ((0 0, 1 0, 1 1, 0 0))''],
              [Str ''p2'', Str ''west'', Str ''POLYGON ((0 0, 2 0, 2 2, 0 0))'']]\<rparr>"

text \<open>A table read afresh, with the labels \<open>0, 1\<close>.\<close>

definition ex_polygon_fresh :: "unit table" where
  "ex_polygon_fresh = ex_polygon_ab\<lparr>index := [IntV 0, IntV 1]\<rparr>"

text \<open>A table that \<open>append\<close> cannot align with the others: a column name occurs twice.\<close>

definition ex_repeated_column :: "unit table" where
  "ex_repeated_column =
     \<lparr>columns = [''polygonID'', ''polygonID''],
      dtypes = [''string'', ''string''],
      index = [IntV 0],
      rows = [[Str ''p3'', Str ''p4'']]\<rparr>"

text \<open>A stand-in for the geometry conversion: the geometry of a text is the text.\<close>

definition wkt_text :: "unit cell \<Rightarrow> error + string" where
  "wkt_text c = (case c of Str s \<Rightarrow> Inr s | _ \<Rightarrow> Inl ValueError)"

subsection \<open>\<open>__widen\<close>\<close>

text \<open>\<open>s.replace(old, new)\<close> and \<open>sep.join(parts)\<close>.\<close>

function str_replace :: "string \<Rightarrow> string \<Rightarrow> string \<Rightarrow> string" where
  "str_replace old new s =
     (if old = [] then new @ concat (map (\<lambda>c. c # new) s)
      else case s of
             [] \<Rightarrow> []
           | c # t \<Rightarrow>
               if startswith s old then new @ str_replace old new (drop (length old) s)
               else c # str_replace old new t)"
  by pat_completeness auto
termination
  by (relation "measure (\<lambda>(old, new, s). length s)") auto

declare str_replace.simps [simp del]

fun join :: "string \<Rightarrow> string list \<Rightarrow> string" where
  "join sep [] = []"
| "join sep [x] = x"
| "join sep (x # y # ys) = x @ sep @ join sep (y # ys)"

text \<open>Lines 151 to 163: the text a qualifier value contributes to the column name.\<close>

definition qualifier_text :: "'f numeric_lib \<Rightarrow> string \<Rightarrow> 'f cell \<Rightarrow> string" where
  "qualifier_text L qualifier v =
     (let qualifier_value = str_replace ''/'' ''-'' (py_str L v)
      in if qualifier = ''qualityFlag''
         then str_replace ''False'' ''no_issue'' (str_replace ''True'' ''quality_issue'' qualifier_value)
         else qualifier_value)"

definition feature_name ::
  "'f numeric_lib \<Rightarrow> string list \<Rightarrow> string list \<Rightarrow> string \<Rightarrow> 'f cell list \<Rightarrow> error + string" where
  "feature_name L cols qualifiers feature row =
     and_then (traverse (\<lambda>qualifier. and_then (cell_of cols row qualifier)
                                       (\<lambda>v. Inr (qualifier_text L qualifier v))) qualifiers)
       (\<lambda>qualifying_values. Inr (join ''.'' [join ''.'' qualifying_values, feature]))"

text \<open>
  \<open>df[feature_name] = None\<close> followed by \<open>astype(feature_dtype)\<close>: the value that fills the new
  column. \<open>None\<close> has no 64-bit integer value, so the cast raises for \<open>int64\<close>.
\<close>

definition null_of_dtype :: "string \<Rightarrow> error + 'f cell" where
  "null_of_dtype d =
     (if d = ''object'' then Inr PyNone
      else if d = ''float64'' then Inr NaN
      else if d = ''datetime64[ns]'' then Inr NaT
      else if d = ''bool'' then Inr (Bool False)
      else if d = ''string'' \<or> d = ''category'' then Inr NaN
      else Inl TypeError)"

definition dtype_of :: "'f table \<Rightarrow> string \<Rightarrow> error + string" where
  "dtype_of t col =
     (case map_of (zip (columns t) (dtypes t)) col of None \<Rightarrow> Inl KeyError | Some d \<Rightarrow> Inr d)"

definition add_column :: "'f table \<Rightarrow> string \<Rightarrow> string \<Rightarrow> 'f cell \<Rightarrow> 'f table" where
  "add_column t name d fill =
     t\<lparr>columns := columns t @ [name], dtypes := dtypes t @ [d],
       rows := map (\<lambda>r. r @ [fill]) (rows t)\<rparr>"

text \<open>\<open>df.loc[i, name] = v\<close> writes to every row that bears the label \<open>i\<close>.\<close>

definition set_cell :: "string list \<Rightarrow> 'f cell list \<Rightarrow> string \<Rightarrow> 'f cell \<Rightarrow> 'f cell list" where
  "set_cell cols r name v = map (\<lambda>(c, x). if c = name then v else x) (zip cols r)"

definition set_loc :: "'f table \<Rightarrow> 'f cell \<Rightarrow> string \<Rightarrow> 'f cell \<Rightarrow> 'f table" where
  "set_loc t i name v =
     t\<lparr>rows := map (\<lambda>(l, r). if l = i then set_cell (columns t) r name v else r)
                    (zip (index t) (rows t))\<rparr>"

text \<open>\<open>df.drop(columns=names)\<close> raises \<open>KeyError\<close> when a name is no column.\<close>

definition drop_columns :: "'f table \<Rightarrow> string list \<Rightarrow> error + 'f table" where
  "drop_columns t names =
     (if \<exists>n \<in> set names. n \<notin> set (columns t) then Inl KeyError
      else Inr (t\<lparr>columns := filter (\<lambda>c. c \<notin> set names) (columns t),
                  dtypes := map snd (filter (\<lambda>(c, d). c \<notin> set names) (zip (columns t) (dtypes t))),
                  rows := map (\<lambda>r. map snd (filter (\<lambda>(c, x). c \<notin> set names) (zip (columns t) r)))
                              (rows t)\<rparr>))"

fun fold_err :: "('s \<Rightarrow> 'a \<Rightarrow> error + 's) \<Rightarrow> 'a list \<Rightarrow> 's \<Rightarrow> error + 's" where
  "fold_err f [] s = Inr s"
| "fold_err f (x # xs) s = and_then (f s x) (fold_err f xs)"

text \<open>
  The body of the inner loop, lines 149 to 185: \<open>cols0\<close> and the row come from \<open>df_copy\<close>,
  the table that is written is \<open>df\<close>.
\<close>

definition widen_step ::
  "'f numeric_lib \<Rightarrow> string list \<Rightarrow> string \<Rightarrow> string list \<Rightarrow> 'f table \<Rightarrow> 'f cell \<times> 'f cell list
     \<Rightarrow> error + 'f table" where
  "widen_step L qualifiers feature cols0 df ir =
     (case ir of (i, row) \<Rightarrow>
        and_then (feature_name L cols0 qualifiers feature row) (\<lambda>name.
        and_then (cell_of cols0 row feature) (\<lambda>feature_value.
        and_then (dtype_of df feature) (\<lambda>feature_dtype.
        and_then (if name \<in> set (columns df) then Inr df
                  else and_then (null_of_dtype feature_dtype)
                         (\<lambda>fill. Inr (add_column df name feature_dtype fill))) (\<lambda>df'.
        Inr (set_loc df' i name feature_value))))))"

definition widen ::
  "'f numeric_lib \<Rightarrow> 'f table \<Rightarrow> string list \<Rightarrow> string list \<Rightarrow> error + 'f table" where
  "widen L df features qualifiers =
     and_then
       (fold_err (\<lambda>d feature. fold_err (widen_step L qualifiers feature (columns df)) (iterrows df) d)
          features df)
       (\<lambda>d. drop_columns d (features @ qualifiers))"

text \<open>A table of measurements whose two units differ only by \<open>/\<close> against \<open>-\<close>.\<close>

definition ex_measures :: "unit table" where
  "ex_measures =
     \<lparr>columns = [''sampleID'', ''type'', ''unit'', ''value''],
      dtypes = [''string'', ''string'', ''string'', ''float64''],
      index = [IntV 0, IntV 1],
      rows = [[Str ''s1'', Str ''covN1'', Str ''gc/ml'', IntV 7],
              [Str ''s2'', Str ''covN1'', Str ''gc-ml'', IntV 9]]\<rparr>"

text \<open>The same with two units that stay apart.\<close>

definition ex_measures_apart :: "unit table" where
  "ex_measures_apart =
     \<lparr>columns = [''sampleID'', ''type'', ''unit'', ''value''],
      dtypes = [''string'', ''string'', ''string'', ''float64''],
      index = [IntV 0, IntV 1],
      rows = [[Str ''s1'', Str ''covN1'', Str ''gc/ml'', IntV 7],
              [Str ''s2'', Str ''covN1'', Str ''gc/l'', IntV 9]]\<rparr>"

text \<open>
  The columns the loop creates, given the names it computes row by row and the columns
  that exist: a name is added the first time it is met, unless it is a column already.
\<close>

fun new_names :: "string list \<Rightarrow> string list \<Rightarrow> string list" where
  "new_names cols [] = []"
| "new_names cols (n # ns) =
     (if n \<in> set cols then new_names cols ns else n # new_names (cols @ [n]) ns)"

text \<open>What the loop keeps true of the table it writes to.\<close>

definition widen_inv :: "string \<Rightarrow> string \<Rightarrow> 'f table \<Rightarrow> bool" where
  "widen_inv feature d df =
     (length (index df) = length (rows df) \<and>
      (\<forall>r \<in> set (rows df). length r = length (columns df)) \<and>
      length (dtypes df) = length (columns df) \<and>
      dtype_of df feature = Inr d)"

subsection \<open>\<open>__parse_sample\<close>\<close>

text \<open>
  Two things the step depends on are fixed by the libraries, not by the repository, and are
  parameters. \<open>set_order\<close> is the order in which Python iterates over a set of texts
  (\<open>pop()\<close> takes the first). \<open>flags_chained\<close> is pandas' test whether a write through
  \<open>df[col]\<close> is an assignment to a copy: line 17 sets \<open>mode.chained_assignment\<close> to
  \<open>raise\<close>, so the write raises \<open>SettingWithCopyError\<close> when the test holds.
\<close>

record 'f py_env =
  set_order :: "string list \<Rightarrow> string list"
  flags_chained :: "'f table \<Rightarrow> bool"

text \<open>\<open>s.split(sep)\<close> for a separator of one character.\<close>

fun split_on :: "char \<Rightarrow> string \<Rightarrow> string list" where
  "split_on sep [] = [[]]"
| "split_on sep (c # s) =
     (if c = sep then [] # split_on sep s
      else (case split_on sep s of [] \<Rightarrow> [[c]] | w # ws \<Rightarrow> (c # w) # ws))"

text \<open>
  \<open>.iloc[i]\<close> takes a position. The loop gives it the label \<open>i\<close> of \<open>iterrows\<close>: an integer
  label is read as a position (from the end when negative), any other label is a
  \<open>TypeError\<close>.
\<close>

definition iloc_pos :: "nat \<Rightarrow> 'f cell \<Rightarrow> error + nat" where
  "iloc_pos n i =
     (case i of
        IntV k \<Rightarrow>
          if 0 \<le> k \<and> k < int n then Inr (nat k)
          else if - int n \<le> k \<and> k < 0 then Inr (nat (int n + k))
          else Inl IndexError
      | _ \<Rightarrow> Inl TypeError)"

definition iloc_row :: "'f table \<Rightarrow> 'f cell \<Rightarrow> error + 'f cell list" where
  "iloc_row df i = and_then (iloc_pos (length (rows df)) i) (\<lambda>p. Inr (rows df ! p))"

text \<open>\<open>df[col].iloc[i] = v\<close>\<close>

definition chained_iloc_set ::
  "'f py_env \<Rightarrow> 'f table \<Rightarrow> string \<Rightarrow> 'f cell \<Rightarrow> 'f cell \<Rightarrow> error + 'f table" where
  "chained_iloc_set E df col i v =
     (if col \<notin> set (columns df) then Inl KeyError
      else and_then (iloc_pos (length (rows df)) i) (\<lambda>p.
        if flags_chained E df then Inl SettingWithCopyError
        else Inr (df\<lparr>rows := (rows df)[p := set_cell (columns df) (rows df ! p) col v]\<rparr>)))"

text \<open>\<open>df.append(new_row, ignore_index=True)\<close>: the labels are renumbered.\<close>

definition append_row :: "'f table \<Rightarrow> 'f cell list \<Rightarrow> 'f table" where
  "append_row df new_row =
     df\<lparr>index := range_index (Suc (length (rows df))), rows := rows df @ [new_row]\<rparr>"

text \<open>Lines 283 to 296, the body of the loop; \<open>cols0\<close> and \<open>row\<close> come from \<open>df_copy\<close>.\<close>

definition explode_row ::
  "'f py_env \<Rightarrow> string list \<Rightarrow> 'f table \<Rightarrow> 'f cell \<times> 'f cell list \<Rightarrow> error + 'f table" where
  "explode_row E cols0 df ir =
     (case ir of (i, row) \<Rightarrow>
        and_then (cell_of cols0 row ''siteID'') (\<lambda>sites.
          case sites of
            Str s \<Rightarrow>
              if contains '';'' s then
                (case set_order E (remdups (map strip (split_on CHR '';'' s))) of
                   [] \<Rightarrow> Inl KeyError
                 | first # others \<Rightarrow>
                     and_then (chained_iloc_set E df ''siteID'' i (Str first)) (\<lambda>df1.
                       fold_err (\<lambda>d site_id.
                           and_then (iloc_row d i) (\<lambda>new_row.
                             Inr (append_row d (set_cell (columns d) new_row ''siteID'' (Str site_id)))))
                         others df1))
              else Inr df
          | _ \<Rightarrow> Inl TypeError))"

text \<open>\<open>isna\<close>, and \<open>df[c1] = df[c1].fillna(df[c2])\<close>.\<close>

fun isna :: "'f cell \<Rightarrow> bool" where
  "isna NaN = True"
| "isna NaT = True"
| "isna PyNone = True"
| "isna c = False"

definition fillna_column :: "'f table \<Rightarrow> string \<Rightarrow> string \<Rightarrow> error + 'f table" where
  "fillna_column df c1 c2 =
     (if c1 \<notin> set (columns df) \<or> c2 \<notin> set (columns df) then Inl KeyError
      else Inr (df\<lparr>rows :=
                   map (\<lambda>r. case (cell_of (columns df) r c1, cell_of (columns df) r c2) of
                               (Inr a, Inr b) \<Rightarrow> set_cell (columns df) r c1 (if isna a then b else a)
                             | _ \<Rightarrow> r)
                       (rows df)\<rparr>))"

definition add_prefix :: "string \<Rightarrow> 'f table \<Rightarrow> 'f table" where
  "add_prefix p df = df\<lparr>columns := map (\<lambda>c. p @ c) (columns df)\<rparr>"

definition parse_sample :: "'f py_env \<Rightarrow> 'f odm \<Rightarrow> error + 'f table" where
  "parse_sample E self =
     and_then (getattr self ''sample'') (\<lambda>sample.
       case sample of
         None \<Rightarrow> Inl AttributeError
       | Some df0 \<Rightarrow>
           and_then (fold_err (explode_row E (columns df0)) (iterrows df0) df0) (\<lambda>df1.
           and_then (fillna_column df1 ''dateTimeStart'' ''dateTime'') (\<lambda>df2.
           and_then (fillna_column df2 ''dateTimeEnd'' ''dateTime'') (\<lambda>df3.
           and_then (drop_columns df3 [''dateTime'']) (\<lambda>df4.
           Inr (add_prefix ''Sample.'' df4))))))"

text \<open>Example environments and sample tables.\<close>

definition env_plain :: "unit py_env" where
  "env_plain = \<lparr>set_order = (\<lambda>xs. xs), flags_chained = (\<lambda>_. False)\<rparr>"

definition env_raising :: "unit py_env" where
  "env_raising = \<lparr>set_order = (\<lambda>xs. xs), flags_chained = (\<lambda>_. True)\<rparr>"

definition ex_sample :: "unit table" where
  "ex_sample =
     \<lparr>columns = [''sampleID'', ''siteID'', ''dateTime'', ''dateTimeStart'', ''dateTimeEnd''],
      dtypes = [''string'', ''string'', ''datetime64[ns]'', ''datetime64[ns]'', ''datetime64[ns]''],
      index = [IntV 0, IntV 1],
      rows = [[Str ''s1'', Str ''A; B'', Stamp ''2021-02-01 08:00:00'', NaT, NaT],
              [Str ''s2'', Str ''C'', NaT, Stamp ''2021-02-02 00:00:00'',
               Stamp ''2021-02-03 00:00:00'']]\<rparr>"

text \<open>
  Two loads merged by \<open>add_to_attr\<close>: both rows bear the label 0, and the second one lists
  two sites.
\<close>

definition ex_sample_merged :: "unit table" where
  "ex_sample_merged =
     \<lparr>columns = [''sampleID'', ''siteID'', ''dateTime'', ''dateTimeStart'', ''dateTimeEnd''],
      dtypes = [''string'', ''string'', ''datetime64[ns]'', ''datetime64[ns]'', ''datetime64[ns]''],
      index = [IntV 0, IntV 0],
      rows = [[Str ''s1'', Str ''C'', Stamp ''2021-02-01 08:00:00'', NaT, NaT],
              [Str ''s2'', Str ''A; B'', Stamp ''2021-02-02 08:00:00'', NaT, NaT]]\<rparr>"

section \<open>Properties of the matcher\<close>

lemma match_seq_length:
  "match_seq ci adv at0 moved is s = Some r \<Longrightarrow>
     length r \<le> length s \<and> (adv \<and> \<not> moved \<longrightarrow> length r < length s)"
proof (induction ci adv at0 moved "is" s arbitrary: r rule: match_seq.induct)
  case (1 ci adv at0 moved s)
  then show ?case by (simp split: if_splits)
next
  case (2 ci adv at0 moved "is" s)
  then show ?case by (simp split: if_splits)
next
  case (3 ci adv at0 moved "is" s)
  then show ?case by (simp split: if_splits)
next
  case (4 ci adv at0 moved cs "is" s)
  from "4.prems" obtain c t where s: "s = c # t" and i: "in_cset ci cs c"
    and m: "match_seq ci adv False True is t = Some r"
    by (cases s) (simp_all split: if_splits)
  from "4.IH" [OF s i m] show ?case by (simp add: s)
next
  case (5 ci adv at0 moved cs "is" s)
  show ?case
  proof (cases s)
    case Nil
    with "5.prems" have "match_seq ci adv at0 moved is [] = Some r" by simp
    from "5.IH"(1) [OF Nil this] show ?thesis by (simp add: Nil)
  next
    case (Cons c t)
    show ?thesis
    proof (cases "in_cset ci cs c")
      case True
      show ?thesis
      proof (cases "match_seq ci adv False True is t")
        case None
        with "5.prems" Cons True have "match_seq ci adv at0 moved is (c # t) = Some r" by simp
        from "5.IH"(3) [OF Cons True None this] show ?thesis by (simp add: Cons)
      next
        case (Some r')
        with "5.prems" Cons True have "r' = r" by simp
        with Some "5.IH"(2) [OF Cons True] show ?thesis by (simp add: Cons)
      qed
    next
      case False
      with "5.prems" Cons have "match_seq ci adv at0 moved is (c # t) = Some r" by simp
      from "5.IH"(4) [OF Cons False this] show ?thesis by (simp add: Cons)
    qed
  qed
next
  case (6 ci adv at0 moved cs "is" s)
  show ?case
  proof (cases s)
    case Nil
    with "6.prems" have "match_seq ci adv at0 moved is [] = Some r" by simp
    from "6.IH"(1) [OF Nil this] show ?thesis by (simp add: Nil)
  next
    case (Cons c t)
    show ?thesis
    proof (cases "in_cset ci cs c")
      case True
      show ?thesis
      proof (cases "match_seq ci adv False True (Star cs # is) t")
        case None
        with "6.prems" Cons True have "match_seq ci adv at0 moved is (c # t) = Some r" by simp
        from "6.IH"(3) [OF Cons True None this] show ?thesis by (simp add: Cons)
      next
        case (Some r')
        with "6.prems" Cons True have "r' = r" by simp
        with Some "6.IH"(2) [OF Cons True] show ?thesis by (simp add: Cons)
      qed
    next
      case False
      with "6.prems" Cons have "match_seq ci adv at0 moved is (c # t) = Some r" by simp
      from "6.IH"(4) [OF Cons False this] show ?thesis by (simp add: Cons)
    qed
  qed
next
  case (7 ci adv at0 moved cs "is" s)
  from "7.prems" obtain c t where s: "s = c # t" and i: "in_cset ci cs c"
    and m: "match_seq ci adv False True (Star cs # is) t = Some r"
    by (cases s) (simp_all split: if_splits)
  from "7.IH" [OF s i m] show ?case by (simp add: s)
qed

lemma match_re_length:
  "match_re ci adv at0 re s = Some r \<Longrightarrow> length r \<le> length s \<and> (adv \<longrightarrow> length r < length s)"
proof (induction re)
  case Nil
  then show ?case by simp
next
  case (Cons a re)
  show ?case
  proof (cases "match_seq ci adv at0 False a s")
    case None
    with Cons.prems have "match_re ci adv at0 re s = Some r" by simp
    from Cons.IH [OF this] show ?thesis .
  next
    case (Some r')
    with Cons.prems have "r' = r" by simp
    with Some match_seq_length [of ci adv at0 False a s r] show ?thesis by simp
  qed
qed

section \<open>Type casting\<close>

lemma lower_char_not_upper: "lower_char c \<notin> set upper_letters"
proof (cases "map_of (zip upper_letters lower_letters) c")
  case None
  have len: "length upper_letters = length lower_letters"
    by (simp add: upper_letters_def lower_letters_def)
  have "fst ` set (zip upper_letters lower_letters) = set upper_letters"
    by (metis len list.set_map map_fst_zip)
  with None have "c \<notin> set upper_letters"
    by (simp add: map_of_eq_None_iff)
  with None show ?thesis by (simp add: lower_char_def)
next
  case (Some d)
  then have "d \<in> set lower_letters"
    by (meson map_of_SomeD set_zip_rightD)
  then have "d \<notin> set upper_letters"
    by (auto simp: lower_letters_def upper_letters_def)
  with Some show ?thesis by (simp add: lower_char_def)
qed

lemma startswith_set: "startswith s p \<Longrightarrow> set p \<subseteq> set s"
  by (induction s p rule: startswith.induct) auto

lemma contains_set: "contains sub s \<Longrightarrow> set sub \<subseteq> set s"
proof (induction s)
  case Nil
  then show ?case by simp
next
  case (Cons a s)
  from Cons.prems have "startswith (a # s) sub \<or> contains sub s" by simp
  then show ?case
  proof
    assume "startswith (a # s) sub"
    then show ?thesis by (rule startswith_set)
  next
    assume "contains sub s"
    then have "set sub \<subseteq> set s" by (rule Cons.IH)
    then show ?thesis by auto
  qed
qed

text \<open>
  \<open>variable_name\<close> is lower-cased on line 41, so the test \<open>"qualityFlag" in variable_name\<close>
  of line 48, which has a capital F, never succeeds.
\<close>

lemma qualityFlag_not_in_lower: "\<not> contains ''qualityFlag'' (lower nm)"
proof
  assume "contains ''qualityFlag'' (lower nm)"
  then have "CHR ''F'' \<in> set (lower nm)"
    using contains_set by fastforce
  then obtain c where "lower_char c = CHR ''F''"
    by (auto simp: lower_def)
  with lower_char_not_upper [of c] show False
    by (simp add: upper_letters_def)
qed

lemma clean_bool_na: "clean_bool ''true'' ''n/a''"
  by code_simp

lemma clean_bool_na_false: "\<not> clean_bool ''false'' ''n/a''"
  by code_simp

lemma clean_bool_oui_yes:
  "clean_bool ''true'' ''Oui'' \<and> clean_bool ''false'' ''Oui'' \<and>
   clean_bool ''true'' ''yes'' \<and> clean_bool ''false'' ''yes'' \<and>
   clean_bool ''true'' ''YES'' \<and> clean_bool ''false'' ''OUI''"
  by code_simp

lemma parse_types_bool:
  assumes "declared_type types table_name (lower nm) = Some ''bool''"
  shows "parse_types L types table_name \<lparr>sname = nm, svalues = vs\<rparr> =
           Inr \<lparr>sname = nm, svalues = map (cast_bool L ''true'') vs\<rparr>"
proof -
  have "traverse astype_bool (map (cast_bool L ''true'') vs) = Inr (map (cast_bool L ''true'') vs)"
    by (induction vs) (simp_all add: cast_bool_def)
  with assms show ?thesis
    by (simp add: parse_types_def qualityFlag_not_in_lower astype_def)
qed

text \<open>The values \<open>"Oui"\<close> and \<open>"yes"\<close> of a boolean column cast to true.\<close>

lemma parse_types_bool_oui_yes:
  assumes "declared_type types table_name (lower nm) = Some ''bool''"
  shows "parse_types L types table_name \<lparr>sname = nm, svalues = [Str ''Oui'', Str ''yes'']\<rparr> =
           Inr \<lparr>sname = nm, svalues = [Bool True, Bool True]\<rparr>"
  using clean_bool_oui_yes by (simp add: parse_types_bool [OF assms] cast_bool_def)

text \<open>
  C1. A boolean column whose value is \<open>"n/a"\<close> casts to true whatever the column is called:
  also for the column \<open>qualityFlag\<close>, for which the default \<open>false\<close> is meant.
\<close>

theorem parse_types_bool_na_is_true:
  assumes "declared_type types table_name (lower nm) = Some ''bool''"
  shows "parse_types L types table_name \<lparr>sname = nm, svalues = [Str ''n/a'']\<rparr> =
           Inr \<lparr>sname = nm, svalues = [Bool True]\<rparr>"
  using clean_bool_na by (simp add: parse_types_bool [OF assms] cast_bool_def)

lemma lower_qualityFlag: "lower ''qualityFlag'' = ''qualityflag''"
  by code_simp

theorem parse_types_bool_na_is_true_witness:
  "declared_type example_types ''WWMeasure'' (lower ''qualityFlag'') = Some ''bool'' \<and>
   parse_types no_numbers example_types ''WWMeasure''
       \<lparr>sname = ''qualityFlag'', svalues = [Str ''n/a'']\<rparr> =
     Inr \<lparr>sname = ''qualityFlag'', svalues = [Bool True]\<rparr>"
proof -
  have d: "declared_type example_types ''WWMeasure'' (lower ''qualityFlag'') = Some ''bool''"
    by (simp add: lower_qualityFlag declared_type_def example_types_def)
  from d parse_types_bool_na_is_true [OF d, of no_numbers] show ?thesis by simp
qed

lemma traverse_all_Inr: "(\<And>x. x \<in> set xs \<Longrightarrow> f x = Inr (g x)) \<Longrightarrow> traverse f xs = Inr (map g xs)"
  by (induction xs) simp_all

text \<open>
  A column declared \<open>float64\<close> goes through \<open>to_numeric\<close> with \<open>errors="coerce"\<close> and never
  fails, whatever it holds.
\<close>

lemma parse_types_float64:
  assumes "declared_type types table_name (lower nm) = Some ''float64''"
  shows "parse_types L types table_name \<lparr>sname = nm, svalues = vs\<rparr> =
           Inr \<lparr>sname = nm, svalues = map (to_numeric_coerce L) vs\<rparr>"
proof -
  have "traverse (astype_float64 L) (map (to_numeric_coerce L) vs) =
          Inr (map (\<lambda>c. c) (map (to_numeric_coerce L) vs))"
    by (rule traverse_all_Inr) (auto simp: to_numeric_coerce_def split: option.splits)
  with assms show ?thesis
    by (simp add: parse_types_def astype_def)
qed

text \<open>
  A column declared \<open>int64\<close> misses the numeric branch, whose test names \<open>"inst64"\<close>, and
  reaches the final cast with its raw values.
\<close>

lemma parse_types_int64:
  assumes "declared_type types table_name (lower nm) = Some ''int64''"
  shows "parse_types L types table_name \<lparr>sname = nm, svalues = vs\<rparr> =
           (case traverse (astype_int64 L) vs of
              Inl e \<Rightarrow> Inl e
            | Inr vs' \<Rightarrow> Inr \<lparr>sname = nm, svalues = vs'\<rparr>)"
  using assms by (simp add: parse_types_def astype_def split: sum.splits)

lemma py_int_abc: "py_int ''abc'' = None"
  by code_simp

text \<open>
  C2. On a column declared \<open>int64\<close>, a value that is no number makes \<open>parse_types\<close> raise
  \<open>ValueError\<close>; so does a missing value.
\<close>

theorem parse_types_int64_raises:
  assumes "declared_type types table_name (lower nm) = Some ''int64''"
  shows "parse_types L types table_name \<lparr>sname = nm, svalues = [Str ''abc'']\<rparr> = Inl ValueError \<and>
         parse_types L types table_name \<lparr>sname = nm, svalues = [NaN]\<rparr> = Inl ValueError"
  by (simp add: parse_types_int64 [OF assms] py_int_abc)

lemma lower_index: "lower ''index'' = ''index''"
  by code_simp

theorem parse_types_int64_raises_witness:
  "declared_type example_types ''WWMeasure'' (lower ''index'') = Some ''int64'' \<and>
   parse_types no_numbers example_types ''WWMeasure''
       \<lparr>sname = ''index'', svalues = [Str ''abc'']\<rparr> = Inl ValueError \<and>
   parse_types no_numbers example_types ''WWMeasure''
       \<lparr>sname = ''index'', svalues = [NaN]\<rparr> = Inl ValueError"
proof -
  have d: "declared_type example_types ''WWMeasure'' (lower ''index'') = Some ''int64''"
    by (simp add: lower_index declared_type_def example_types_def)
  from d parse_types_int64_raises [OF d, of no_numbers] show ?thesis by simp
qed

section \<open>Unknown tokens\<close>


lemma lower_char_cases: "lower_char c = c \<or> (c \<in> set upper_letters \<and> lower_char c \<in> set lower_letters)"
proof (cases "map_of (zip upper_letters lower_letters) c")
  case None
  then show ?thesis by (simp add: lower_char_def)
next
  case (Some d)
  then have "d \<in> set lower_letters" "c \<in> set upper_letters"
    by (meson map_of_SomeD set_zip_rightD set_zip_leftD)+
  with Some show ?thesis by (simp add: lower_char_def)
qed


lemma lower_char_space: "is_space (lower_char c) \<Longrightarrow> is_space c"
  using lower_char_cases [of c] by (auto simp: is_space_def lower_letters_def)





































text \<open>
  Only a value that the pattern describes as a whole becomes empty: inside a longer text
  each match is removed and the rest is kept.
\<close>

lemma clean_text_inner_match: "clean_text ''name'' ''Canada'' = ''ca''"
  by code_simp






section \<open>Merging and the geospatial export\<close>

lemma traverse_Inr_iff: "traverse f xs = Inr ys \<longleftrightarrow> list_all2 (\<lambda>x y. f x = Inr y) xs ys"
proof (induction xs arbitrary: ys)
  case Nil
  then show ?case by auto
next
  case (Cons x xs)
  show ?case
  proof (cases "f x")
    case (Inl e)
    then show ?thesis by (auto simp: list_all2_Cons1)
  next
    case (Inr y)
    show ?thesis
    proof (cases "traverse f xs")
      case (Inl e)
      with Inr Cons.IH show ?thesis by (auto simp: list_all2_Cons1)
    next
      case r: (Inr zs)
      with Inr Cons.IH [of zs] Cons.IH show ?thesis
        by (auto simp: list_all2_Cons1)
    qed
  qed
qed

lemma traverse_total:
  "(\<And>x. x \<in> set xs \<Longrightarrow> \<exists>y. f x = Inr y) \<Longrightarrow> \<exists>ys. traverse f xs = Inr ys"
proof (induction xs)
  case Nil
  then show ?case by simp
next
  case (Cons x xs)
  then obtain y ys where "f x = Inr y" "traverse f xs = Inr ys"
    by (metis list.set_intros(1,2))
  then show ?case by simp
qed

lemma cell_of_present:
  assumes "length row = length cols" and "c \<in> set cols"
  shows "\<exists>v. cell_of cols row c = Inr v"
proof -
  from assms have "c \<in> fst ` set (zip cols row)"
    by (metis list.set_map map_fst_zip)
  then obtain v where "map_of (zip cols row) c = Some v"
    by (metis map_of_eq_None_iff not_Some_eq)
  then show ?thesis by (simp add: cell_of_def)
qed

lemma traverse_length: "traverse f xs = Inr ys \<Longrightarrow> length ys = length xs"
  by (simp add: traverse_Inr_iff list_all2_lengthD)

lemma traverse_nth: "traverse f xs = Inr ys \<Longrightarrow> k < length xs \<Longrightarrow> f (xs ! k) = Inr (ys ! k)"
  using list_all2_nthD [of "\<lambda>x y. f x = Inr y" xs ys k] by (simp add: traverse_Inr_iff)

lemma properties_of_row:
  assumes "length row = length cols" and "set cs \<subseteq> set cols"
  shows "\<exists>props. traverse (\<lambda>col. and_then (cell_of cols row col) (\<lambda>v. Inr (col, v))) cs = Inr props \<and>
           map fst props = cs \<and> (\<forall>(c, v) \<in> set props. cell_of cols row c = Inr v)"
  using assms(2)
proof (induction cs)
  case Nil
  then show ?case by simp
next
  case (Cons c cs)
  then obtain props where p: "traverse (\<lambda>col. and_then (cell_of cols row col) (\<lambda>v. Inr (col, v))) cs = Inr props"
    "map fst props = cs" "\<forall>(c, v) \<in> set props. cell_of cols row c = Inr v"
    by auto
  from Cons.prems cell_of_present [OF assms(1), of c] obtain v where v: "cell_of cols row c = Inr v"
    by auto
  with p show ?case by (simp add: and_then_def)
qed

lemma new_feature_ok:
  assumes "length row = length cols" and "cell_of cols row ''wkt'' = Inr w" and "conv w = Inr g"
  shows "\<exists>props. new_feature conv cols (i, row) =
             Inr \<lparr>ftype = ''Feature'', geometry = g, properties = props, fid = i\<rparr> \<and>
           map fst props = filter (\<lambda>col. \<not> contains ''wkt'' col) cols \<and>
           (\<forall>(c, v) \<in> set props. cell_of cols row c = Inr v)"
proof -
  have "set (filter (\<lambda>col. \<not> contains ''wkt'' col) cols) \<subseteq> set cols" by auto
  from properties_of_row [OF assms(1) this]
  obtain props where
    "traverse (\<lambda>col. and_then (cell_of cols row col) (\<lambda>v. Inr (col, v)))
       (filter (\<lambda>col. \<not> contains ''wkt'' col) cols) = Inr props"
    "map fst props = filter (\<lambda>col. \<not> contains ''wkt'' col) cols"
    "\<forall>(c, v) \<in> set props. cell_of cols row c = Inr v"
    by auto
  with assms(2,3) show ?thesis
    by (simp add: new_feature_def and_then_def)
qed

lemma range_index_nth: "k < n \<Longrightarrow> range_index n ! k = IntV (int k)"
  by (simp add: range_index_def)

text \<open>
  C3. When the attribute holds a table and appending the incoming value to it fails,
  \<open>add_to_attr\<close> returns without raising and leaves the aggregate as it was; when the
  attribute holds no data, the incoming value becomes the value of the attribute.
\<close>

theorem add_to_attr_merge:
  "(self a = Some (Some cur) \<and> append_df cur new_df = Inl e \<longrightarrow>
      add_to_attr self a new_df = Inr self) \<and>
   (self a = Some None \<longrightarrow> add_to_attr self a new_df = Inr (self(a \<mapsto> new_df)))"
  by (auto simp: add_to_attr_def getattr_def and_then_def fun_upd_idem)

theorem add_to_attr_merge_witness:
  "append_df ex_polygon_a (Some ex_repeated_column) = Inl ValueError \<and>
   add_to_attr (Odm_init(''polygon'' \<mapsto> Some ex_polygon_a)) ''polygon'' (Some ex_repeated_column) =
     Inr (Odm_init(''polygon'' \<mapsto> Some ex_polygon_a)) \<and>
   append_df ex_polygon_a None = Inl TypeError \<and>
   add_to_attr (Odm_init(''polygon'' \<mapsto> Some ex_polygon_a)) ''polygon'' None =
     Inr (Odm_init(''polygon'' \<mapsto> Some ex_polygon_a)) \<and>
   add_to_attr Odm_init ''polygon'' (Some ex_polygon_a) =
     Inr (Odm_init(''polygon'' \<mapsto> Some ex_polygon_a))"
proof -
  have h1: "(Odm_init(''polygon'' \<mapsto> Some ex_polygon_a)) ''polygon'' = Some (Some ex_polygon_a)"
    by simp
  have h2: "append_df ex_polygon_a (Some ex_repeated_column) = Inl ValueError"
    by (simp add: append_df_def ex_polygon_a_def ex_repeated_column_def)
  have h3: "append_df ex_polygon_a None = Inl TypeError"
    by (simp add: append_df_def)
  have h4: "Odm_init ''polygon'' = Some None"
    by (simp add: Odm_init_def)
  from h1 h2 h3 h4
    add_to_attr_merge [of "Odm_init(''polygon'' \<mapsto> Some ex_polygon_a)" "''polygon''"
      ex_polygon_a "Some ex_repeated_column" ValueError]
    add_to_attr_merge [of "Odm_init(''polygon'' \<mapsto> Some ex_polygon_a)" "''polygon''"
      ex_polygon_a None TypeError]
    add_to_attr_merge [of Odm_init "''polygon''" ex_polygon_a "Some ex_polygon_a" ValueError]
  show ?thesis by blast
qed

text \<open>
  C9, as the code has it. For a polygon table with a column \<open>wkt\<close> whose values the
  conversion accepts, \<open>get_geoJSON\<close> returns one feature per row, in order; the properties
  of a feature are the columns whose name does not contain \<open>wkt\<close>, with the values of the
  row; its id is the label of the row, which is the position of the row when the table bears
  the labels \<open>0, 1, ...\<close> of a fresh read.
\<close>

theorem get_geoJSON_features:
  assumes "self ''polygon'' = Some (Some t)" and "wf_table t"
    and "''wkt'' \<in> set (columns t)"
    and "\<forall>r \<in> set (rows t). \<forall>w. cell_of (columns t) r ''wkt'' = Inr w \<longrightarrow> (\<exists>g. conv w = Inr g)"
  shows "\<exists>fs. get_geoJSON conv self = Inr \<lparr>gtype = ''FeatureCollection'', gfeatures = fs\<rparr> \<and>
           length fs = length (rows t) \<and>
           (\<forall>k < length fs.
              ftype (fs ! k) = ''Feature'' \<and>
              map fst (properties (fs ! k)) = filter (\<lambda>c. \<not> contains ''wkt'' c) (columns t) \<and>
              (\<forall>(c, v) \<in> set (properties (fs ! k)). cell_of (columns t) (rows t ! k) c = Inr v) \<and>
              fid (fs ! k) = index t ! k \<and>
              (index t = range_index (length (rows t)) \<longrightarrow> fid (fs ! k) = IntV (int k)))"
proof -
  from assms(2) have len: "length (index t) = length (rows t)"
    and rl: "\<And>r. r \<in> set (rows t) \<Longrightarrow> length r = length (columns t)"
    by (simp_all add: wf_table_def)
  have ok: "\<exists>props g. new_feature conv (columns t) (i, r) =
               Inr \<lparr>ftype = ''Feature'', geometry = g, properties = props, fid = i\<rparr> \<and>
             map fst props = filter (\<lambda>col. \<not> contains ''wkt'' col) (columns t) \<and>
             (\<forall>(c, v) \<in> set props. cell_of (columns t) r c = Inr v)"
    if "r \<in> set (rows t)" for i r
  proof -
    from cell_of_present [OF rl [OF that] assms(3)] obtain w
      where w: "cell_of (columns t) r ''wkt'' = Inr w" by auto
    with assms(4) that obtain g where g: "conv w = Inr g" by blast
    from new_feature_ok [of r "columns t" w conv g i] rl [OF that] w g show ?thesis by blast
  qed
  have "\<exists>fs. traverse (new_feature conv (columns t)) (iterrows t) = Inr fs"
  proof (rule traverse_total)
    fix x assume "x \<in> set (iterrows t)"
    then have "snd x \<in> set (rows t)"
      using set_zip_rightD [of "fst x" "snd x" "index t" "rows t"] by (simp add: iterrows_def)
    from ok [OF this, of "fst x"] show "\<exists>y. new_feature conv (columns t) x = Inr y"
      by auto
  qed
  then obtain fs where fs: "traverse (new_feature conv (columns t)) (iterrows t) = Inr fs"
    by auto
  have n: "length fs = length (rows t)"
    using traverse_length [OF fs] len by (simp add: iterrows_def)
  have each: "ftype (fs ! k) = ''Feature'' \<and>
              map fst (properties (fs ! k)) = filter (\<lambda>c. \<not> contains ''wkt'' c) (columns t) \<and>
              (\<forall>(c, v) \<in> set (properties (fs ! k)). cell_of (columns t) (rows t ! k) c = Inr v) \<and>
              fid (fs ! k) = index t ! k \<and>
              (index t = range_index (length (rows t)) \<longrightarrow> fid (fs ! k) = IntV (int k))"
    if k: "k < length fs" for k
  proof -
    from k n len have kk: "k < length (iterrows t)" and kr: "k < length (rows t)"
      by (simp_all add: iterrows_def)
    then have it: "iterrows t ! k = (index t ! k, rows t ! k)"
      by (simp add: iterrows_def)
    from traverse_nth [OF fs kk] it
    have f: "new_feature conv (columns t) (index t ! k, rows t ! k) = Inr (fs ! k)" by simp
    from kr have "rows t ! k \<in> set (rows t)" by simp
    from ok [OF this, of "index t ! k"] f kr show ?thesis
      by (auto simp: range_index_def)
  qed
  from assms(1) fs n each show ?thesis
    by (simp add: get_geoJSON_def getattr_def and_then_def range_index_nth)
qed

theorem get_geoJSON_features_witness:
  "wf_table ex_polygon_fresh \<and> ''wkt'' \<in> set (columns ex_polygon_fresh) \<and>
   (\<exists>fs. get_geoJSON wkt_text (Odm_init(''polygon'' \<mapsto> Some ex_polygon_fresh)) =
            Inr \<lparr>gtype = ''FeatureCollection'', gfeatures = fs\<rparr> \<and>
          length fs = length (rows ex_polygon_fresh) \<and>
          (\<forall>k < length fs.
             ftype (fs ! k) = ''Feature'' \<and>
             map fst (properties (fs ! k)) =
               filter (\<lambda>c. \<not> contains ''wkt'' c) (columns ex_polygon_fresh) \<and>
             (\<forall>(c, v) \<in> set (properties (fs ! k)).
                cell_of (columns ex_polygon_fresh) (rows ex_polygon_fresh ! k) c = Inr v) \<and>
             fid (fs ! k) = index ex_polygon_fresh ! k \<and>
             (index ex_polygon_fresh = range_index (length (rows ex_polygon_fresh)) \<longrightarrow>
              fid (fs ! k) = IntV (int k))))"
proof -
  have h1: "(Odm_init(''polygon'' \<mapsto> Some ex_polygon_fresh)) ''polygon'' = Some (Some ex_polygon_fresh)"
    by simp
  have h2: "wf_table ex_polygon_fresh"
    by (simp add: wf_table_def ex_polygon_fresh_def ex_polygon_ab_def)
  have h3: "''wkt'' \<in> set (columns ex_polygon_fresh)"
    by (simp add: ex_polygon_fresh_def ex_polygon_ab_def)
  have h4: "\<forall>r \<in> set (rows ex_polygon_fresh). \<forall>w.
              cell_of (columns ex_polygon_fresh) r ''wkt'' = Inr w \<longrightarrow> (\<exists>g. wkt_text w = Inr g)"
    by (auto simp: ex_polygon_fresh_def ex_polygon_ab_def cell_of_def wkt_text_def)
  from h1 h2 h3 h4
    get_geoJSON_features [of "Odm_init(''polygon'' \<mapsto> Some ex_polygon_fresh)" ex_polygon_fresh wkt_text]
  show ?thesis by blast
qed

text \<open>
  Two tables loaded one after the other are appended with their labels, so both rows of the
  merged table bear the label 0: the feature of the second row, at position 1, has the id 0.
\<close>

theorem get_geoJSON_id_counterexample:
  "add_to_attr Odm_init ''polygon'' (Some ex_polygon_a) =
     Inr (Odm_init(''polygon'' \<mapsto> Some ex_polygon_a)) \<and>
   add_to_attr (Odm_init(''polygon'' \<mapsto> Some ex_polygon_a)) ''polygon'' (Some ex_polygon_b) =
     Inr (Odm_init(''polygon'' \<mapsto> Some ex_polygon_ab)) \<and>
   get_geoJSON wkt_text (Odm_init(''polygon'' \<mapsto> Some ex_polygon_ab)) =
     Inr \<lparr>gtype = ''FeatureCollection'',
          gfeatures =
            [\<lparr>ftype = ''Feature'', geometry = ''POLYGON ((0 0, 1 0, 1 1, 0 0))'',
              properties = [(''polygonID'', Str ''p1''), (''name'', Str ''east'')],
              fid = IntV 0\<rparr>,
             \<lparr>ftype = ''Feature'', geometry = ''POLYGON ((0 0, 2 0, 2 2, 0 0))'',
              properties = [(''polygonID'', Str ''p2''), (''name'', Str ''west'')],
              fid = IntV 0\<rparr>]\<rparr> \<and>
   IntV 0 \<noteq> (IntV 1 :: unit cell)"
proof -
  have a: "add_to_attr Odm_init ''polygon'' (Some ex_polygon_a) =
             Inr (Odm_init(''polygon'' \<mapsto> Some ex_polygon_a))"
    by (simp add: add_to_attr_def getattr_def and_then_def Odm_init_def)
  have "and_then (append_df ex_polygon_a (Some ex_polygon_b)) (\<lambda>a. Inr (drop_duplicates a)) =
          Inr ex_polygon_ab"
    by (simp add: append_df_def and_then_def drop_duplicates_def iterrows_def
        ex_polygon_a_def ex_polygon_b_def ex_polygon_ab_def)
  then have b: "add_to_attr (Odm_init(''polygon'' \<mapsto> Some ex_polygon_a)) ''polygon''
                  (Some ex_polygon_b) = Inr (Odm_init(''polygon'' \<mapsto> Some ex_polygon_ab))"
    by (simp add: add_to_attr_def getattr_def and_then_def)
  have c: "get_geoJSON wkt_text (Odm_init(''polygon'' \<mapsto> Some ex_polygon_ab)) =
     Inr \<lparr>gtype = ''FeatureCollection'',
          gfeatures =
            [\<lparr>ftype = ''Feature'', geometry = ''POLYGON ((0 0, 1 0, 1 1, 0 0))'',
              properties = [(''polygonID'', Str ''p1''), (''name'', Str ''east'')],
              fid = IntV 0\<rparr>,
             \<lparr>ftype = ''Feature'', geometry = ''POLYGON ((0 0, 2 0, 2 2, 0 0))'',
              properties = [(''polygonID'', Str ''p2''), (''name'', Str ''west'')],
              fid = IntV 0\<rparr>]\<rparr>"
    by (simp add: get_geoJSON_def getattr_def and_then_def new_feature_def iterrows_def
        cell_of_def wkt_text_def ex_polygon_ab_def)
  from a b c show ?thesis by simp
qed

section \<open>Widening\<close>

lemma new_names_set: "set (new_names cols ns) = set ns - set cols"
  by (induction ns arbitrary: cols) auto

lemma new_names_distinct: "distinct (new_names cols ns)"
  by (induction ns arbitrary: cols) (auto simp: new_names_set)

lemma set_cell_length: "length r = length cols \<Longrightarrow> length (set_cell cols r name v) = length r"
  by (simp add: set_cell_def)

lemma set_loc_inv:
  assumes "widen_inv feature d df"
  shows "widen_inv feature d (set_loc df i name v) \<and> columns (set_loc df i name v) = columns df \<and>
         index (set_loc df i name v) = index df \<and>
         length (rows (set_loc df i name v)) = length (rows df)"
proof -
  from assms have len: "length (index df) = length (rows df)"
    and rl: "\<And>r. r \<in> set (rows df) \<Longrightarrow> length r = length (columns df)"
    and dl: "length (dtypes df) = length (columns df)"
    and dt: "dtype_of df feature = Inr d"
    by (simp_all add: widen_inv_def)
  have "length r' = length (columns df)"
    if "r' \<in> set (rows (set_loc df i name v))" for r'
  proof -
    from that obtain l r where "(l, r) \<in> set (zip (index df) (rows df))"
      and r': "r' = (if l = i then set_cell (columns df) r name v else r)"
      by (auto simp: set_loc_def)
    then have "r \<in> set (rows df)" by (meson set_zip_rightD)
    with rl r' show ?thesis by (simp add: set_cell_length)
  qed
  with len dl dt show ?thesis
    by (simp add: widen_inv_def set_loc_def dtype_of_def)
qed

lemma add_column_inv:
  assumes "widen_inv feature d df"
  shows "widen_inv feature d (add_column df name d' fill) \<and>
         columns (add_column df name d' fill) = columns df @ [name] \<and>
         index (add_column df name d' fill) = index df \<and>
         length (rows (add_column df name d' fill)) = length (rows df)"
proof -
  from assms have len: "length (index df) = length (rows df)"
    and rl: "\<And>r. r \<in> set (rows df) \<Longrightarrow> length r = length (columns df)"
    and dl: "length (dtypes df) = length (columns df)"
    and dt: "dtype_of df feature = Inr d"
    by (simp_all add: widen_inv_def)
  from dt have "map_of (zip (columns df) (dtypes df)) feature = Some d"
    by (simp add: dtype_of_def split: option.splits)
  with dl have "dtype_of (add_column df name d' fill) feature = Inr d"
    by (simp add: dtype_of_def add_column_def map_add_def)
  with len rl dl show ?thesis
    by (auto simp: widen_inv_def add_column_def)
qed

lemma widen_step_ok:
  fixes df :: "'f table" and fill :: "'f cell"
  assumes inv: "widen_inv feature d df"
    and nul: "null_of_dtype d = Inr fill"
    and n: "feature_name L cols0 quals feature row = Inr name"
    and v: "cell_of cols0 row feature = Inr fv"
  shows "\<exists>df'. widen_step L quals feature cols0 df (i, row) = Inr df' \<and> widen_inv feature d df' \<and>
           columns df' = columns df @ new_names (columns df) [name] \<and>
           index df' = index df \<and> length (rows df') = length (rows df)"
proof (cases "name \<in> set (columns df)")
  case True
  from inv have dt: "dtype_of df feature = Inr d" by (simp add: widen_inv_def)
  with True n v have "widen_step L quals feature cols0 df (i, row) = Inr (set_loc df i name fv)"
    by (simp add: widen_step_def and_then_def)
  with set_loc_inv [OF inv, of i name fv] True show ?thesis by simp
next
  case False
  from inv have dt: "dtype_of df feature = Inr d" by (simp add: widen_inv_def)
  with False n v nul
  have "widen_step L quals feature cols0 df (i, row) =
          Inr (set_loc (add_column df name d fill) i name fv)"
    by (simp add: widen_step_def and_then_def)
  with add_column_inv [OF inv, of name d fill]
    set_loc_inv [of feature d "add_column df name d fill" i name fv] False
  show ?thesis by simp
qed

lemma widen_rows_ok:
  fixes df :: "'f table" and fill :: "'f cell"
  assumes nul: "null_of_dtype d = Inr fill"
  shows "widen_inv feature d df \<Longrightarrow>
         traverse (\<lambda>ir. feature_name L cols0 quals feature (snd ir)) items = Inr names \<Longrightarrow>
         (\<forall>ir \<in> set items. \<exists>fv. cell_of cols0 (snd ir) feature = Inr fv) \<Longrightarrow>
         \<exists>df'. fold_err (widen_step L quals feature cols0) items df = Inr df' \<and>
           widen_inv feature d df' \<and>
           columns df' = columns df @ new_names (columns df) names \<and>
           index df' = index df \<and> length (rows df') = length (rows df)"
proof (induction items arbitrary: df names)
  case Nil
  then show ?case by simp
next
  case (Cons ir items)
  obtain i row where ir: "ir = (i, row)" by (cases ir)
  from Cons.prems(2) obtain name names' where names: "names = name # names'"
    and n: "feature_name L cols0 quals feature row = Inr name"
    and t: "traverse (\<lambda>ir. feature_name L cols0 quals feature (snd ir)) items = Inr names'"
    by (auto simp: ir split: sum.splits)
  from Cons.prems(3) obtain fv where v: "cell_of cols0 row feature = Inr fv"
    by (auto simp: ir)
  from widen_step_ok [OF Cons.prems(1) nul n v, of i] obtain df1 where
    s: "widen_step L quals feature cols0 df (i, row) = Inr df1" and i1: "widen_inv feature d df1"
    and c1: "columns df1 = columns df @ new_names (columns df) [name]"
    and x1: "index df1 = index df" and r1: "length (rows df1) = length (rows df)"
    by blast
  from Cons.prems(3) have "\<forall>ir \<in> set items. \<exists>fv. cell_of cols0 (snd ir) feature = Inr fv" by simp
  from Cons.IH [OF i1 t this] obtain df2 where
    f: "fold_err (widen_step L quals feature cols0) items df1 = Inr df2"
    and i2: "widen_inv feature d df2"
    and c2: "columns df2 = columns df1 @ new_names (columns df1) names'"
    and x2: "index df2 = index df1" and r2: "length (rows df2) = length (rows df1)"
    by blast
  from s f have "fold_err (widen_step L quals feature cols0) (ir # items) df = Inr df2"
    by (simp add: ir and_then_def)
  moreover from c1 c2 have "columns df2 = columns df @ new_names (columns df) names"
    by (simp add: names)
  ultimately show ?case using i2 x1 x2 r1 r2 by simp
qed

lemma traverse_snd_zip:
  "length xs = length ys \<Longrightarrow> traverse (\<lambda>p. f (snd p)) (zip xs ys) = traverse f ys"
proof (induction ys arbitrary: xs)
  case Nil
  then show ?case by simp
next
  case (Cons y ys)
  then obtain x xs' where xs: "xs = x # xs'" and len: "length xs' = length ys" by (cases xs) auto
  from Cons.IH [OF len] show ?case by (simp add: xs split: sum.splits)
qed

lemma qualifier_text_plain:
  "qualifier \<noteq> ''qualityFlag'' \<Longrightarrow> qualifier_text L qualifier v = str_replace ''/'' ''-'' (py_str L v)"
  by (simp add: qualifier_text_def)

lemma feature_name_type_unit:
  assumes "length row = length cols" and "''type'' \<in> set cols" and "''unit'' \<in> set cols"
  shows "\<exists>ty un. cell_of cols row ''type'' = Inr ty \<and> cell_of cols row ''unit'' = Inr un \<and>
           feature_name L cols [''type'', ''unit''] ''value'' row =
             Inr (str_replace ''/'' ''-'' (py_str L ty) @ ''.'' @
                  str_replace ''/'' ''-'' (py_str L un) @ ''.value'')"
proof -
  from cell_of_present [OF assms(1,2)] obtain ty where ty: "cell_of cols row ''type'' = Inr ty"
    by auto
  from cell_of_present [OF assms(1,3)] obtain un where un: "cell_of cols row ''unit'' = Inr un"
    by auto
  from ty un show ?thesis
    by (simp add: feature_name_def and_then_def qualifier_text_plain)
qed

lemma generated_name_fresh:
  "a @ ''.'' @ b @ ''.value'' \<notin> {''value'', ''type'', ''unit''}"
  by (auto dest!: arg_cong [where f = length])

lemma drop_columns_ok:
  assumes "set names \<subseteq> set (columns t)"
  shows "\<exists>t'. drop_columns t names = Inr t' \<and>
           columns t' = filter (\<lambda>c. c \<notin> set names) (columns t) \<and>
           index t' = index t \<and> length (rows t') = length (rows t)"
  using assms by (auto simp: drop_columns_def)

lemma quality_flag_texts:
  "str_replace ''False'' ''no_issue''
     (str_replace ''True'' ''quality_issue'' (str_replace ''/'' ''-'' ''True'')) = ''quality_issue''"
  "str_replace ''False'' ''no_issue''
     (str_replace ''True'' ''quality_issue'' (str_replace ''/'' ''-'' ''False'')) = ''no_issue''"
  by code_simp+

text \<open>For a qualifier named \<open>qualityFlag\<close> the values \<open>True\<close> and \<open>False\<close> are spelt out.\<close>

lemma qualifier_text_qualityFlag:
  "qualifier_text L ''qualityFlag'' (Bool True) = ''quality_issue''"
  "qualifier_text L ''qualityFlag'' (Bool False) = ''no_issue''"
  by (simp_all add: qualifier_text_def quality_flag_texts)

text \<open>
  C5, as the code has it. Let a table have the columns \<open>value\<close>, \<open>type\<close> and \<open>unit\<close>, the
  dtype of \<open>value\<close> being one that has a missing value. Widening \<open>value\<close> over \<open>type\<close> and
  \<open>unit\<close> computes for every row the name \<open>type.unit.value\<close> (with \<open>/\<close> replaced by \<open>-\<close> in the
  two qualifier texts), removes the three columns, keeps the rows and their labels, and
  appends one column for each different name that was not a column already: two columns
  exactly when the rows give two different names, none of them the name of a column.
\<close>

theorem widen_value_by_type_unit:
  fixes t :: "'f table" and fill :: "'f cell"
  assumes wf: "wf_table t"
    and cols: "{''value'', ''type'', ''unit''} \<subseteq> set (columns t)"
    and dt: "dtype_of t ''value'' = Inr d"
    and nul: "null_of_dtype d = Inr fill"
  shows "\<exists>names G t'.
     traverse (feature_name L (columns t) [''type'', ''unit''] ''value'') (rows t) = Inr names \<and>
     (\<forall>k < length (rows t). \<exists>ty un.
         cell_of (columns t) (rows t ! k) ''type'' = Inr ty \<and>
         cell_of (columns t) (rows t ! k) ''unit'' = Inr un \<and>
         names ! k = str_replace ''/'' ''-'' (py_str L ty) @ ''.'' @
                     str_replace ''/'' ''-'' (py_str L un) @ ''.value'') \<and>
     widen L t [''value''] [''type'', ''unit''] = Inr t' \<and>
     columns t' = filter (\<lambda>c. c \<notin> {''value'', ''type'', ''unit''}) (columns t) @ G \<and>
     distinct G \<and> set G = set names - set (columns t) \<and>
     length G = card (set names - set (columns t)) \<and>
     index t' = index t \<and> length (rows t') = length (rows t)"
proof -
  let ?fn = "feature_name L (columns t) [''type'', ''unit''] ''value''"
  from wf have len: "length (index t) = length (rows t)"
    and rl: "\<And>r. r \<in> set (rows t) \<Longrightarrow> length r = length (columns t)"
    and dl: "length (dtypes t) = length (columns t)"
    by (simp_all add: wf_table_def)
  have row_name: "\<exists>ty un. cell_of (columns t) r ''type'' = Inr ty \<and>
                    cell_of (columns t) r ''unit'' = Inr un \<and>
                    ?fn r = Inr (str_replace ''/'' ''-'' (py_str L ty) @ ''.'' @
                                 str_replace ''/'' ''-'' (py_str L un) @ ''.value'')"
    if "r \<in> set (rows t)" for r
    using feature_name_type_unit [OF rl [OF that], of L] cols by simp
  have "\<exists>names. traverse ?fn (rows t) = Inr names"
    by (rule traverse_total) (use row_name in blast)
  then obtain names where names: "traverse ?fn (rows t) = Inr names" by auto
  have nk: "\<exists>ty un. cell_of (columns t) (rows t ! k) ''type'' = Inr ty \<and>
              cell_of (columns t) (rows t ! k) ''unit'' = Inr un \<and>
              names ! k = str_replace ''/'' ''-'' (py_str L ty) @ ''.'' @
                          str_replace ''/'' ''-'' (py_str L un) @ ''.value''"
    if "k < length (rows t)" for k
  proof -
    from that have "rows t ! k \<in> set (rows t)" by simp
    from row_name [OF this] traverse_nth [OF names that] show ?thesis by auto
  qed
  have fresh: "n \<notin> {''value'', ''type'', ''unit''}" if "n \<in> set names" for n
  proof -
    from that obtain k where k: "k < length names" "names ! k = n"
      by (auto simp: in_set_conv_nth)
    with traverse_length [OF names] nk [of k] generated_name_fresh show ?thesis
      by metis
  qed
  have inv: "widen_inv ''value'' d t"
    using len rl dl dt by (simp add: widen_inv_def)
  have tr: "traverse (\<lambda>ir. ?fn (snd ir)) (iterrows t) = Inr names"
    using names len by (simp add: iterrows_def traverse_snd_zip)
  have vals: "\<forall>ir \<in> set (iterrows t). \<exists>fv. cell_of (columns t) (snd ir) ''value'' = Inr fv"
  proof
    fix ir assume "ir \<in> set (iterrows t)"
    then have "snd ir \<in> set (rows t)"
      using set_zip_rightD [of "fst ir" "snd ir" "index t" "rows t"] by (simp add: iterrows_def)
    from cell_of_present [OF rl [OF this], of "''value''"] cols
    show "\<exists>fv. cell_of (columns t) (snd ir) ''value'' = Inr fv" by simp
  qed
  from widen_rows_ok [OF nul inv tr vals] obtain df where
    f: "fold_err (widen_step L [''type'', ''unit''] ''value'' (columns t)) (iterrows t) t = Inr df"
    and c: "columns df = columns t @ new_names (columns t) names"
    and x: "index df = index t" and r: "length (rows df) = length (rows t)"
    by blast
  let ?G = "new_names (columns t) names"
  from cols c have "set ([''value''] @ [''type'', ''unit'']) \<subseteq> set (columns df)" by auto
  from drop_columns_ok [OF this] obtain t' where
    d: "drop_columns df ([''value''] @ [''type'', ''unit'']) = Inr t'"
    and c': "columns t' = filter (\<lambda>c. c \<notin> set ([''value''] @ [''type'', ''unit''])) (columns df)"
    and x': "index t' = index df" and r': "length (rows t') = length (rows df)"
    by blast
  from f d have w: "widen L t [''value''] [''type'', ''unit''] = Inr t'"
    by (simp add: widen_def and_then_def)
  have "filter (\<lambda>c. c \<notin> {''value'', ''type'', ''unit''}) ?G = ?G"
    using fresh by (auto simp: new_names_set filter_id_conv)
  with c c' have cc: "columns t' = filter (\<lambda>c. c \<notin> {''value'', ''type'', ''unit''}) (columns t) @ ?G"
    by simp
  have "length ?G = card (set names - set (columns t))"
    using distinct_card [OF new_names_distinct [of "columns t" names]]
    by (simp add: new_names_set)
  with names nk w cc new_names_distinct [of "columns t" names] new_names_set [of "columns t" names]
    x x' r r'
  show ?thesis by (intro exI [of _ names] exI [of _ ?G] exI [of _ t']) simp
qed

lemma ex_measures_apart_names:
  "traverse (feature_name no_numbers (columns ex_measures_apart) [''type'', ''unit''] ''value'')
     (rows ex_measures_apart) = Inr [''covN1.gc-ml.value'', ''covN1.gc-l.value'']"
  by code_simp

theorem widen_value_by_type_unit_witness:
  "wf_table ex_measures_apart \<and>
   {''value'', ''type'', ''unit''} \<subseteq> set (columns ex_measures_apart) \<and>
   dtype_of ex_measures_apart ''value'' = Inr ''float64'' \<and>
   null_of_dtype ''float64'' = Inr (NaN :: unit cell) \<and>
   (\<exists>G t'.
     widen no_numbers ex_measures_apart [''value''] [''type'', ''unit''] = Inr t' \<and>
     columns t' = filter (\<lambda>c. c \<notin> {''value'', ''type'', ''unit''}) (columns ex_measures_apart) @ G \<and>
     distinct G \<and>
     set G = set [''covN1.gc-ml.value'', ''covN1.gc-l.value''] - set (columns ex_measures_apart) \<and>
     length G = 2 \<and>
     index t' = index ex_measures_apart \<and> length (rows t') = length (rows ex_measures_apart))"
proof -
  have h1: "wf_table ex_measures_apart"
    by (simp add: wf_table_def ex_measures_apart_def)
  have h2: "{''value'', ''type'', ''unit''} \<subseteq> set (columns ex_measures_apart)"
    by (simp add: ex_measures_apart_def)
  have h3: "dtype_of ex_measures_apart ''value'' = Inr ''float64''"
    by (simp add: dtype_of_def ex_measures_apart_def)
  have h4: "null_of_dtype ''float64'' = Inr (NaN :: unit cell)"
    by (simp add: null_of_dtype_def)
  have c: "card (set [''covN1.gc-ml.value'', ''covN1.gc-l.value''] - set (columns ex_measures_apart)) = 2"
    by (simp add: ex_measures_apart_def)
  from widen_value_by_type_unit [OF h1 h2 h3 h4, of no_numbers] obtain names G t' where
    n: "traverse (feature_name no_numbers (columns ex_measures_apart) [''type'', ''unit''] ''value'')
          (rows ex_measures_apart) = Inr names"
    and w: "widen no_numbers ex_measures_apart [''value''] [''type'', ''unit''] = Inr t'"
    and g: "columns t' =
              filter (\<lambda>c. c \<notin> {''value'', ''type'', ''unit''}) (columns ex_measures_apart) @ G"
      "distinct G" "set G = set names - set (columns ex_measures_apart)"
      "length G = card (set names - set (columns ex_measures_apart))"
      "index t' = index ex_measures_apart" "length (rows t') = length (rows ex_measures_apart)"
    by blast
  from n ex_measures_apart_names have "names = [''covN1.gc-ml.value'', ''covN1.gc-l.value'']"
    by simp
  with w g c
  have "widen no_numbers ex_measures_apart [''value''] [''type'', ''unit''] = Inr t' \<and>
     columns t' = filter (\<lambda>c. c \<notin> {''value'', ''type'', ''unit''}) (columns ex_measures_apart) @ G \<and>
     distinct G \<and>
     set G = set [''covN1.gc-ml.value'', ''covN1.gc-l.value''] - set (columns ex_measures_apart) \<and>
     length G = 2 \<and>
     index t' = index ex_measures_apart \<and> length (rows t') = length (rows ex_measures_apart)"
    by simp
  with h1 h2 h3 h4 show ?thesis by blast
qed

text \<open>
  Two rows with two different (type, unit) pairs, \<open>gc/ml\<close> and \<open>gc-ml\<close>, get the same name:
  the result has one generated column, which holds the value of each row.
\<close>

theorem widen_two_pairs_one_column_counterexample:
  "((Str ''covN1'', Str ''gc/ml'') :: unit cell \<times> unit cell) \<noteq> (Str ''covN1'', Str ''gc-ml'') \<and>
   widen no_numbers
     \<lparr>columns = [''sampleID'', ''type'', ''unit'', ''value''],
      dtypes = [''string'', ''string'', ''string'', ''float64''],
      index = [IntV 0, IntV 1],
      rows = [[Str ''s1'', Str ''covN1'', Str ''gc/ml'', IntV 7],
              [Str ''s2'', Str ''covN1'', Str ''gc-ml'', IntV 9]]\<rparr>
     [''value''] [''type'', ''unit''] =
   Inr \<lparr>columns = [''sampleID'', ''covN1.gc-ml.value''],
        dtypes = [''string'', ''float64''],
        index = [IntV 0, IntV 1],
        rows = [[Str ''s1'', IntV 7], [Str ''s2'', IntV 9]]\<rparr>"
  by code_simp

end
